theory Spec2Isabelle
  imports Complex_Main "HOL-Library.Char_ord" "HOL-Library.Log_Nat"
begin

section \<open>Values of the host language\<close>

text \<open>
  The add-in is JavaScript running against the spreadsheet host. Its numbers are IEEE 754
  double precision values: not-a-number, the two infinities, and the finite doubles. A
  finite double is given here by its rational value (the two zeros are one value: they
  compare and print alike, both are falsy, and the code never divides by one). An
  arithmetic operation computes the exact result and rounds it to the nearest double, ties
  going to the even significand; a result beyond the largest double is an infinity.
\<close>

datatype number = NaN | Inf bool | Fin rat

text \<open>
  \<open>Inf True\<close> is \<^verbatim>\<open>-Infinity\<close>. A cell value read through \<^verbatim>\<open>range.values\<close> is a string, a
  number or a boolean (the empty cell is the empty string); the code also tests for
  \<^verbatim>\<open>null\<close>. Strings are lists of bytes; the column letters, digits and separators the
  code inspects are ASCII.
\<close>

datatype cell = Nul | Flag bool | Num number | Txt string

subsection \<open>Rounding to a double\<close>

definition pow2 :: "int \<Rightarrow> rat" where
  "pow2 e = (if 0 \<le> e then 2 ^ nat e else 1 / 2 ^ nat (- e))"

text \<open>
  The binary exponent of a positive rational \<open>x\<close>, that is the \<open>k\<close> with
  \<open>2\<^sup>k \<le> x < 2\<^sup>k\<^sup>+\<^sup>1\<close>: the bit lengths of numerator and denominator give it up to one.
\<close>

definition ilog2 :: "rat \<Rightarrow> int" where
  "ilog2 x =
     (let (p, q) = quotient_of x;
          k = bitlen p - bitlen q
      in if pow2 k \<le> x then k else k - 1)"

definition round_even :: "rat \<Rightarrow> int" where
  "round_even y =
     (let f = \<lfloor>y\<rfloor>; d = y - of_int f
      in if d < 1 / 2 then f
         else if 1 / 2 < d then f + 1
         else if even f then f else f + 1)"

text \<open>
  \<open>rnd x\<close> is the value with a significand of 53 bits (fewer below \<open>2\<^sup>-\<^sup>1\<^sup>0\<^sup>2\<^sup>2\<close>, where
  the spacing stays \<open>2\<^sup>-\<^sup>1\<^sup>0\<^sup>7\<^sup>4\<close>) that is nearest to \<open>x\<close>; \<open>dbl x\<close> is the number that an
  operation with the exact result \<open>x\<close> returns, and the number that a decimal literal of
  value \<open>x\<close> denotes: an infinity when the rounded value reaches \<open>2\<^sup>1\<^sup>0\<^sup>2\<^sup>4\<close>.
\<close>

definition rnd :: "rat \<Rightarrow> rat" where
  "rnd x =
     (if x = 0 then 0
      else (let e = max (ilog2 \<bar>x\<bar> - 52) (- 1074)
            in sgn x * of_int (round_even (\<bar>x\<bar> / pow2 e)) * pow2 e))"

definition dbl :: "rat \<Rightarrow> number" where
  "dbl x = (let y = rnd x in if y \<noteq> 0 \<and> 1024 \<le> ilog2 \<bar>y\<bar> then Inf (x < 0) else Fin y)"

subsection \<open>Arithmetic and comparison\<close>

fun dneg :: "number \<Rightarrow> number" where
  "dneg NaN = NaN"
| "dneg (Inf s) = Inf (\<not> s)"
| "dneg (Fin a) = Fin (- a)"

fun dadd :: "number \<Rightarrow> number \<Rightarrow> number" where
  "dadd (Fin a) (Fin b) = dbl (a + b)"
| "dadd (Fin a) (Inf t) = Inf t"
| "dadd (Inf s) (Fin b) = Inf s"
| "dadd (Inf s) (Inf t) = (if s = t then Inf s else NaN)"
| "dadd NaN y = NaN"
| "dadd x NaN = NaN"

definition dsub :: "number \<Rightarrow> number \<Rightarrow> number" where
  "dsub x y = dadd x (dneg y)"

fun dmul :: "number \<Rightarrow> number \<Rightarrow> number" where
  "dmul (Fin a) (Fin b) = dbl (a * b)"
| "dmul (Fin a) (Inf t) = (if a = 0 then NaN else Inf (t \<noteq> (a < 0)))"
| "dmul (Inf s) (Fin b) = (if b = 0 then NaN else Inf (s \<noteq> (b < 0)))"
| "dmul (Inf s) (Inf t) = Inf (s \<noteq> t)"
| "dmul NaN y = NaN"
| "dmul x NaN = NaN"

text \<open>\<^verbatim>\<open>x < y\<close> and \<^verbatim>\<open>x <= y\<close>; a comparison with \<^verbatim>\<open>NaN\<close> is false.\<close>

fun dlt :: "number \<Rightarrow> number \<Rightarrow> bool" where
  "dlt (Fin a) (Fin b) = (a < b)"
| "dlt (Fin a) (Inf t) = (\<not> t)"
| "dlt (Inf s) (Fin b) = s"
| "dlt (Inf s) (Inf t) = (s \<and> \<not> t)"
| "dlt NaN y = False"
| "dlt x NaN = False"

fun dle :: "number \<Rightarrow> number \<Rightarrow> bool" where
  "dle (Fin a) (Fin b) = (a \<le> b)"
| "dle (Fin a) (Inf t) = (\<not> t)"
| "dle (Inf s) (Fin b) = s"
| "dle (Inf s) (Inf t) = (s \<or> \<not> t)"
| "dle NaN y = False"
| "dle x NaN = False"

text \<open>\<^verbatim>\<open>Math.floor\<close> and \<^verbatim>\<open>Math.round\<close> (halves go up).\<close>

fun dfloor :: "number \<Rightarrow> number" where
  "dfloor (Fin a) = Fin (of_int \<lfloor>a\<rfloor>)"
| "dfloor x = x"

fun dround :: "number \<Rightarrow> number" where
  "dround (Fin a) = Fin (of_int \<lfloor>a + 1 / 2\<rfloor>)"
| "dround x = x"

text \<open>The test \<^verbatim>\<open>x || d\<close> on a number takes \<open>d\<close> for \<^verbatim>\<open>NaN\<close> and for zero.\<close>

definition falsy_number :: "number \<Rightarrow> bool" where
  "falsy_number x = (x = NaN \<or> x = Fin 0)"

text \<open>Truthiness (\<^verbatim>\<open>!x\<close>, \<^verbatim>\<open>x || d\<close>, \<^verbatim>\<open>x && y\<close>).\<close>

fun truthy :: "cell \<Rightarrow> bool" where
  "truthy Nul = False"
| "truthy (Flag b) = b"
| "truthy (Num x) = (\<not> falsy_number x)"
| "truthy (Txt s) = (s \<noteq> [])"

text \<open>The test \<^verbatim>\<open>v !== '' && v !== null\<close> that the code uses for "has a value".\<close>

definition has_value :: "cell \<Rightarrow> bool" where
  "has_value v = (v \<noteq> Txt [] \<and> v \<noteq> Nul)"

subsection \<open>Parsing and printing\<close>

definition is_digit :: "char \<Rightarrow> bool" where
  "is_digit c = (CHR ''0'' \<le> c \<and> c \<le> CHR ''9'')"

definition is_upper :: "char \<Rightarrow> bool" where
  "is_upper c = (CHR ''A'' \<le> c \<and> c \<le> CHR ''Z'')"

definition is_space :: "char \<Rightarrow> bool" where
  "is_space c = (c \<in> set [CHR 0x20, CHR 0x09, CHR 0x0A, CHR 0x0B, CHR 0x0C, CHR 0x0D])"

definition digit_val :: "char \<Rightarrow> nat" where
  "digit_val c = of_char c - 48"

definition digits_val :: "string \<Rightarrow> nat" where
  "digits_val ds = foldl (\<lambda>acc c. acc * 10 + digit_val c) 0 ds"

text \<open>Hexadecimal digits, for the \<^verbatim>\<open>0x\<close> prefix that \<^verbatim>\<open>parseInt\<close> accepts.\<close>

definition hex_val :: "char \<Rightarrow> nat option" where
  "hex_val c =
     (if is_digit c then Some (of_char c - 48)
      else if CHR ''a'' \<le> c \<and> c \<le> CHR ''f'' then Some (of_char c - 87)
      else if CHR ''A'' \<le> c \<and> c \<le> CHR ''F'' then Some (of_char c - 55)
      else None)"

definition split_sign :: "string \<Rightarrow> bool \<times> string" where
  "split_sign s =
     (case s of
        c # r \<Rightarrow> (if c = CHR ''-'' then (True, r) else if c = CHR ''+'' then (False, r) else (False, s))
      | [] \<Rightarrow> (False, s))"

text \<open>
  \<^verbatim>\<open>parseInt(string)\<close> with no radix: leading white space, an optional sign, an optional
  \<^verbatim>\<open>0x\<close> prefix, then the longest run of digits. The result here is the integer that
  the digits denote, \<open>None\<close> standing for \<^verbatim>\<open>NaN\<close>; the number that the code gets is
  \<open>int_number\<close> of it.
\<close>

definition parseInt_str :: "string \<Rightarrow> int option" where
  "parseInt_str s =
     (let (neg, r) = split_sign (dropWhile is_space s);
          hex = (case r of
                   a # b # _ \<Rightarrow> a = CHR ''0'' \<and> (b = CHR ''x'' \<or> b = CHR ''X'')
                 | _ \<Rightarrow> False);
          mag = (if hex
                 then (let ds = takeWhile (\<lambda>c. hex_val c \<noteq> None) (drop 2 r)
                       in if ds = [] then None
                          else Some (foldl (\<lambda>acc c. acc * 16 + the (hex_val c)) 0 ds))
                 else (let ds = takeWhile is_digit r
                       in if ds = [] then None else Some (digits_val ds)))
      in map_option (\<lambda>m. if neg then - int m else int m) mag)"

definition int_number :: "int option \<Rightarrow> number" where
  "int_number i = (case i of None \<Rightarrow> NaN | Some m \<Rightarrow> dbl (of_int m))"

text \<open>
  \<^verbatim>\<open>parseFloat(string)\<close>: leading white space, an optional sign, then \<^verbatim>\<open>Infinity\<close> or
  the longest prefix that is a decimal literal (digits, fraction, exponent); the result is
  the double nearest to the value of the literal.
\<close>

definition parse_exponent :: "string \<Rightarrow> int" where
  "parse_exponent r =
     (case r of
        [] \<Rightarrow> 0
      | e # r1 \<Rightarrow>
          (if e = CHR ''e'' \<or> e = CHR ''E''
           then (let (neg, r2) = split_sign r1; ds = takeWhile is_digit r2
                 in if ds = [] then 0 else (if neg then - int (digits_val ds) else int (digits_val ds)))
           else 0))"

definition pow10 :: "int \<Rightarrow> rat" where
  "pow10 e = (if e \<ge> 0 then 10 ^ nat e else 1 / 10 ^ nat (- e))"

definition parseFloat_str :: "string \<Rightarrow> number" where
  "parseFloat_str s =
     (let (neg, r) = split_sign (dropWhile is_space s);
          ip = takeWhile is_digit r;
          r1 = dropWhile is_digit r;
          dot = (r1 \<noteq> [] \<and> hd r1 = CHR ''.'');
          fp = (if dot then takeWhile is_digit (tl r1) else []);
          r2 = (if dot then dropWhile is_digit (tl r1) else r1)
      in if take 8 r = ''Infinity'' then Inf neg
         else if ip = [] \<and> fp = [] then NaN
         else (let m = rat_of_nat (digits_val ip) + rat_of_nat (digits_val fp) / 10 ^ length fp;
                   v = m * pow10 (parse_exponent r2)
               in dbl (if neg then - v else v)))"

text \<open>Decimal printing of integers, and \<^verbatim>\<open>padStart(2, '0')\<close>.\<close>

definition digit_char :: "nat \<Rightarrow> char" where
  "digit_char d = ''0123456789'' ! (d mod 10)"

function show_nat :: "nat \<Rightarrow> string" where
  "show_nat n = (if n < 10 then [digit_char n] else show_nat (n div 10) @ [digit_char (n mod 10)])"
  by pat_completeness auto
termination
  by (relation "measure id") auto

declare show_nat.simps [simp del]

definition show_int :: "int \<Rightarrow> string" where
  "show_int i = (if i < 0 then CHR ''-'' # show_nat (nat (- i)) else show_nat (nat i))"

definition padStart2 :: "string \<Rightarrow> string" where
  "padStart2 s = replicate (2 - length s) CHR ''0'' @ s"

text \<open>
  \<^verbatim>\<open>String(v)\<close>. A number prints with the fewest digits that determine the double. For
  an integer below \<open>2\<^sup>5\<^sup>3\<close> these are its decimal digits; how the host prints any other
  finite number is the parameter \<open>ns\<close>.
\<close>

definition num_str :: "(rat \<Rightarrow> string) \<Rightarrow> rat \<Rightarrow> string" where
  "num_str ns x =
     (if x = of_int \<lfloor>x\<rfloor> \<and> \<bar>x\<bar> < 2 ^ 53 then show_int \<lfloor>x\<rfloor> else ns x)"

fun number_str :: "(rat \<Rightarrow> string) \<Rightarrow> number \<Rightarrow> string" where
  "number_str ns NaN = ''NaN''"
| "number_str ns (Inf s) = (if s then ''-Infinity'' else ''Infinity'')"
| "number_str ns (Fin x) = num_str ns x"

fun js_string :: "(rat \<Rightarrow> string) \<Rightarrow> cell \<Rightarrow> string" where
  "js_string ns (Txt s) = s"
| "js_string ns (Num x) = number_str ns x"
| "js_string ns (Flag b) = (if b then ''true'' else ''false'')"
| "js_string ns Nul = ''null''"

text \<open>
  On a cell value \<^verbatim>\<open>parseFloat\<close> and \<^verbatim>\<open>parseInt\<close> first convert to a string. For a
  number the conversion followed by \<^verbatim>\<open>parseFloat\<close> gives the number back, as the printed
  digits determine the double; \<^verbatim>\<open>parseInt\<close> reads the printed string.
\<close>

fun parseFloat :: "cell \<Rightarrow> number" where
  "parseFloat (Num x) = x"
| "parseFloat (Txt s) = parseFloat_str s"
| "parseFloat (Flag b) = NaN"
| "parseFloat Nul = NaN"

definition parseInt :: "(rat \<Rightarrow> string) \<Rightarrow> cell \<Rightarrow> int option" where
  "parseInt ns v = parseInt_str (js_string ns v)"

text \<open>\<^verbatim>\<open>parseFloat(v) || d\<close> and \<^verbatim>\<open>parseInt(v) || d\<close>: \<^verbatim>\<open>NaN\<close> and zero give \<open>d\<close>.\<close>

definition float_or :: "cell \<Rightarrow> number \<Rightarrow> number" where
  "float_or v d = (if falsy_number (parseFloat v) then d else parseFloat v)"

definition int_or :: "(rat \<Rightarrow> string) \<Rightarrow> cell \<Rightarrow> int \<Rightarrow> int" where
  "int_or ns v d = (case parseInt ns v of None \<Rightarrow> d | Some x \<Rightarrow> if x = 0 then d else x)"

section \<open>utils.js\<close>

text \<open>
  \<^verbatim>\<open>columnLetterToIndex\<close>: the loop \<^verbatim>\<open>index = index * 26 + (charCode - 65)\<close> over the
  characters, starting from 0.
\<close>

definition columnLetterToIndex :: "string \<Rightarrow> int" where
  "columnLetterToIndex letter =
     foldl (\<lambda>index c. index * 26 + (of_char c - of_char CHR ''A'')) 0 letter"

text \<open>
  \<^verbatim>\<open>indexToColumnLetter\<close>: \<^verbatim>\<open>while (index >= 0)\<close> prepends the letter of
  \<^verbatim>\<open>index % 26\<close> and continues with \<^verbatim>\<open>Math.floor(index / 26) - 1\<close>.
\<close>

function indexToColumnLetter_loop :: "int \<Rightarrow> string \<Rightarrow> string" where
  "indexToColumnLetter_loop index letter =
     (if index \<ge> 0
      then indexToColumnLetter_loop (index div 26 - 1)
             (char_of (index mod 26 + of_char CHR ''A'') # letter)
      else letter)"
  by pat_completeness auto
termination
  by (relation "measure (\<lambda>(index, letter). nat (index + 1))") auto

declare indexToColumnLetter_loop.simps [simp del]

definition indexToColumnLetter :: "int \<Rightarrow> string" where
  "indexToColumnLetter index = indexToColumnLetter_loop index []"

text \<open>
  \<^verbatim>\<open>parseAddress\<close>: the first match of the unanchored pattern \<^verbatim>\<open>([A-Z]+)(\d+)\<close>.
  Both groups are greedy, so a match at a position takes the whole run of capitals there and
  needs a digit right after it.
\<close>

record parsed =
  column :: string
  colIndex :: int
  row :: nat

definition match_here :: "string \<Rightarrow> (string \<times> string) option" where
  "match_here s =
     (let letters = takeWhile is_upper s;
          digits = takeWhile is_digit (dropWhile is_upper s)
      in if letters \<noteq> [] \<and> digits \<noteq> [] then Some (letters, digits) else None)"

fun address_match :: "string \<Rightarrow> (string \<times> string) option" where
  "address_match [] = None"
| "address_match (c # cs) =
     (case match_here (c # cs) of Some m \<Rightarrow> Some m | None \<Rightarrow> address_match cs)"

definition parseAddress :: "string \<Rightarrow> parsed option" where
  "parseAddress address =
     (case address_match address of
        None \<Rightarrow> None
      | Some (letters, digits) \<Rightarrow>
          Some \<lparr> column = letters,
                 colIndex = columnLetterToIndex letters + 1,
                 row = digits_val digits \<rparr>)"

text \<open>
  Dates. A \<^verbatim>\<open>Date\<close> is its number of milliseconds on the local clock (a zone with a fixed
  offset, so every local day has 24 hours); \<open>None\<close> is the invalid date. The calendar
  fields come from the usual conversion between day numbers and the proleptic Gregorian
  calendar, day 0 being Thursday 1970-01-01.
\<close>

type_synonym jsdate = int

definition oneDay :: int where
  "oneDay = 24 * 60 * 60 * 1000"

definition civil_from_days :: "int \<Rightarrow> int \<times> int \<times> int" where
  "civil_from_days z0 =
     (let z = z0 + 719468;
          era = z div 146097;
          doe = z - era * 146097;
          yoe = (doe - doe div 1460 + doe div 36524 - doe div 146096) div 365;
          y = yoe + era * 400;
          doy = doe - (365 * yoe + yoe div 4 - yoe div 100);
          mp = (5 * doy + 2) div 153;
          d = doy - (153 * mp + 2) div 5 + 1;
          m = (if mp < 10 then mp + 3 else mp - 9)
      in (if m \<le> 2 then y + 1 else y, m, d))"


definition getFullYear :: "jsdate \<Rightarrow> int" where
  "getFullYear t = fst (civil_from_days (t div oneDay))"

definition getMonth :: "jsdate \<Rightarrow> int" where
  "getMonth t = fst (snd (civil_from_days (t div oneDay))) - 1"

definition getDate :: "jsdate \<Rightarrow> int" where
  "getDate t = snd (snd (civil_from_days (t div oneDay)))"


definition getHours :: "jsdate \<Rightarrow> int" where
  "getHours t = (t mod oneDay) div 3600000"

definition getMinutes :: "jsdate \<Rightarrow> int" where
  "getMinutes t = (t mod 3600000) div 60000"

definition getSeconds :: "jsdate \<Rightarrow> int" where
  "getSeconds t = (t mod 60000) div 1000"




definition formatDateYYYYMMDD :: "(rat \<Rightarrow> string) \<Rightarrow> jsdate \<Rightarrow> string" where
  "formatDateYYYYMMDD ns date =
     (let y = getFullYear date;
          m = padStart2 (num_str ns (of_int (getMonth date + 1)));
          d = padStart2 (num_str ns (of_int (getDate date)))
      in num_str ns (of_int y) @ m @ d)"

definition formatDateTime :: "(rat \<Rightarrow> string) \<Rightarrow> jsdate \<Rightarrow> string" where
  "formatDateTime ns date =
     formatDateYYYYMMDD ns date @ '' '' @
     padStart2 (num_str ns (of_int (getHours date))) @ '':'' @
     padStart2 (num_str ns (of_int (getMinutes date))) @ '':'' @
     padStart2 (num_str ns (of_int (getSeconds date)))"



section \<open>config.js and state.js\<close>

definition DATA_START_ROW :: nat where "DATA_START_ROW = 5"
definition CONTROL_ROW :: nat where "CONTROL_ROW = 2"
definition lastTimeLine :: nat where "lastTimeLine = 36"
definition scoreLine :: nat where "scoreLine = 38"
definition DAYS_IN_WEEK :: nat where "DAYS_IN_WEEK = 7"
definition TASK_COLUMNS :: "int list" where "TASK_COLUMNS = [3, 5, 7, 9, 11, 13, 15]"
definition SCORE_COLUMNS :: "int list" where "SCORE_COLUMNS = [4, 6, 8, 10, 12, 14, 16]"
definition BUTTON_HELP :: int where "BUTTON_HELP = 3"
definition BUTTON_ADD :: int where "BUTTON_ADD = 5"
definition BUTTON_DELETE :: int where "BUTTON_DELETE = 7"
definition BUTTON_RANDOM :: int where "BUTTON_RANDOM = 9"
definition BUTTON_THANK :: int where "BUTTON_THANK = 11"
definition HABITS_DATA_START_ROW :: nat where "HABITS_DATA_START_ROW = 4"
definition DAY_START :: string where "DAY_START = ''D''"
definition STREAK_MULTIPLIER :: number where "STREAK_MULTIPLIER = dbl (11 / 10)"
definition SUMMARY_DATE_COLUMN :: string where "SUMMARY_DATE_COLUMN = ''A''"
definition POSITIVE_SCORE_COLUMN :: string where "POSITIVE_SCORE_COLUMN = ''D''"
definition NEGATIVE_SCORE_COLUMN :: string where "NEGATIVE_SCORE_COLUMN = ''E''"
definition TOTAL_SCORE_COLUMN :: string where "TOTAL_SCORE_COLUMN = ''F''"
definition HABITS_SHEET :: string where "HABITS_SHEET = ''Habits''"
definition WEEKLY_SHEET :: string where "WEEKLY_SHEET = ''Weekly''"
definition POSITIVE :: string where "POSITIVE = ''#70AD47''"
definition NEGATIVE :: string where "NEGATIVE = ''#ED7D31''"
definition NEUTRAL :: string where "NEUTRAL = ''#FFC000''"
definition CURRENT_TIME :: string where "CURRENT_TIME = ''#FFFF00''"

text \<open>
  A sheet maps an address, the column letters and the row number, to the value of the cell;
  its fill colours are a second map (\<open>None\<close> is "no fill"). The workbook record holds the
  four sheets, the fields of the global \<^verbatim>\<open>state\<close> object, and what the task pane shows:
  the status line, the modal, the display style of the collapsible sections, and the files
  offered for download. The Weekly and Habits sheets exist; Tasks and Summary may be
  missing, as the code checks for that. A write takes effect where the code queues it, which
  is what every later read of the same handler sees after its \<^verbatim>\<open>context.sync()\<close>; a
  cell keeps the value that was written to it, and calls to the host do not fail.
\<close>

type_synonym address = "string \<times> nat"
type_synonym sheet = "address \<Rightarrow> cell"
type_synonym fills = "address \<Rightarrow> string option"

record workbook =
  weekly :: sheet
  weekly_fill :: fills
  habits :: sheet
  habits_fill :: fills
  tasks :: "sheet option"
  summary :: "sheet option"
  currentSheet :: "string option"
  currentDayIndex :: int
  lastRow :: nat
  dIndex :: nat
  lastMonday :: "jsdate option"
  taskl :: nat
  summaryL :: nat
  lastInitDate :: "string option"
  status :: "(string \<times> string) option"
  modal :: "(string \<times> string \<times> string) option"
  sections :: "string \<Rightarrow> string option"
  downloads :: "(string \<times> string) list"

text \<open>
  What a handler gets from outside: the clock (every \<^verbatim>\<open>new Date()\<close> of one handler run
  reads the same instant), the successive results of \<^verbatim>\<open>Math.random()\<close>, the host's
  printing of numbers that are not integers, and \<^verbatim>\<open>Math.pow\<close>, whose result the language
  leaves to the implementation up to an approximation.
\<close>

record env =
  now :: jsdate
  random :: "nat \<Rightarrow> rat"
  numToString :: "rat \<Rightarrow> string"
  pow :: "number \<Rightarrow> number \<Rightarrow> number"

text \<open>
  A column range \<^verbatim>\<open>X5:X36\<close> read top to bottom (the host reads an address whose last
  row lies above its first row as the same range), and a block of cells.
\<close>

definition column_values :: "sheet \<Rightarrow> string \<Rightarrow> nat \<Rightarrow> nat \<Rightarrow> cell list" where
  "column_values sh col r1 r2 = map (\<lambda>r. sh (col, r)) [min r1 r2 ..< Suc (max r1 r2)]"

definition letters_from :: "string \<Rightarrow> string list" where
  "letters_from cs = map (\<lambda>c. [c]) cs"

definition in_block :: "string list \<Rightarrow> nat \<Rightarrow> nat \<Rightarrow> address \<Rightarrow> bool" where
  "in_block cols r1 r2 a = (fst a \<in> set cols \<and> r1 \<le> snd a \<and> snd a \<le> r2)"

definition clear_fill :: "string list \<Rightarrow> nat \<Rightarrow> nat \<Rightarrow> fills \<Rightarrow> fills" where
  "clear_fill cols r1 r2 f = (\<lambda>a. if in_block cols r1 r2 a then None else f a)"


section \<open>ui.js\<close>

definition showStatus :: "string \<Rightarrow> string \<Rightarrow> workbook \<Rightarrow> workbook" where
  "showStatus message type s = s\<lparr>status := Some (message, type)\<rparr>"

definition emoji_warning :: string where
  "emoji_warning = [CHR 0xE2, CHR 0x9A, CHR 0xA0, CHR 0xEF, CHR 0xB8, CHR 0x8F]"

definition emoji_check :: string where
  "emoji_check = [CHR 0xE2, CHR 0x9C, CHR 0x85]"


definition emoji_dice :: string where
  "emoji_dice = [CHR 0xF0, CHR 0x9F, CHR 0x8E, CHR 0xB2]"

definition emoji_memo :: string where
  "emoji_memo = [CHR 0xF0, CHR 0x9F, CHR 0x93, CHR 0x9D]"

definition emoji_fire :: string where
  "emoji_fire = [CHR 0xF0, CHR 0x9F, CHR 0x94, CHR 0xA5]"

definition showWarningPopup :: "string \<Rightarrow> workbook \<Rightarrow> workbook" where
  "showWarningPopup message s =
     (showStatus (emoji_warning @ '' '' @ message) ''warning'' s)
       \<lparr>modal := Some (emoji_warning @ '' Warning'', message, ''warning'')\<rparr>"

definition toggleSection :: "string \<Rightarrow> workbook \<Rightarrow> workbook" where
  "toggleSection ident s =
     (case sections s ident of
        None \<Rightarrow> s
      | Some display \<Rightarrow>
          s\<lparr>sections := (sections s)(ident := Some (if display = ''none'' then ''block'' else ''none''))\<rparr>)"

text \<open>
  \<^verbatim>\<open>x.toFixed(2)\<close>: the decimal with two fraction digits nearest to the exact value of
  the double, the larger one of two that are equally near.
\<close>

fun toFixed2 :: "(rat \<Rightarrow> string) \<Rightarrow> number \<Rightarrow> string" where
  "toFixed2 ns (Fin x) =
     (if \<bar>x\<bar> \<ge> 10 ^ 21 then num_str ns x
      else (let n = nat \<lfloor>\<bar>x\<bar> * 100 + 1 / 2\<rfloor>
            in (if x < 0 then ''-'' else '''') @ show_nat (n div 100) @ ''.'' @
               padStart2 (show_nat (n mod 100))))"
| "toFixed2 ns x = number_str ns x"

section \<open>weekly.js\<close>

subsection \<open>String helpers of the host language\<close>

fun join :: "string \<Rightarrow> string list \<Rightarrow> string" where
  "join sep [] = []"
| "join sep [x] = x"
| "join sep (x # y # ys) = x @ sep @ join sep (y # ys)"



definition escapeCSV :: "string \<Rightarrow> string" where
  "escapeCSV str =
     (if CHR '','' \<in> set str \<or> CHR 0x22 \<in> set str \<or> CHR 0x0A \<in> set str
      then [CHR 0x22] @ concat (map (\<lambda>c. if c = CHR 0x22 then [CHR 0x22, CHR 0x22] else [c]) str)
           @ [CHR 0x22]
      else str)"

subsection \<open>Archive of the week\<close>

text \<open>
  The time cell of an archive row: a number is taken as a fraction of a day,
  \<^verbatim>\<open>hours = Math.floor(time * 24)\<close>, \<^verbatim>\<open>mins = Math.round((time * 24 - hours) * 60)\<close>,
  both padded to two characters; anything else is printed as it is.
\<close>

definition archive_time :: "(rat \<Rightarrow> string) \<Rightarrow> cell \<Rightarrow> string" where
  "archive_time ns time =
     (case time of
        Num t \<Rightarrow>
          (let hours = dfloor (dmul t (Fin 24));
               mins = dround (dmul (dsub (dmul t (Fin 24)) hours) (Fin 60))
           in padStart2 (number_str ns hours) @ '':'' @ padStart2 (number_str ns mins))
      | _ \<Rightarrow> js_string ns time)"

definition archive_row :: "(rat \<Rightarrow> string) \<Rightarrow> cell \<Rightarrow> cell list \<Rightarrow> string" where
  "archive_row ns time data =
     join '',''
       (escapeCSV (archive_time ns time) #
        concat (map (\<lambda>d. (let task = data ! (d * 2);
                              score = data ! (d * 2 + 1)
                          in [escapeCSV (js_string ns (if truthy task then task else Txt [])),
                              (if has_value score then js_string ns score else [])]))
                    [0 ..< DAYS_IN_WEEK]))"

definition csv_headers :: string where
  "csv_headers =
     join '','' (''Time'' # concat (map (\<lambda>d. [d @ ''_Task'', d @ ''_Score''])
       (take DAYS_IN_WEEK [''Mon'', ''Tue'', ''Wed'', ''Thu'', ''Fri'', ''Sat'', ''Sun''])))"

definition week_csv :: "(rat \<Rightarrow> string) \<Rightarrow> sheet \<Rightarrow> string" where
  "week_csv ns sh =
     csv_headers @ [CHR 0x0A] @
     concat (map (\<lambda>r. (let time = sh (''B'', r)
                        in if time = Txt [] \<or> time = Nul then []
                           else archive_row ns time
                                  (map (\<lambda>c. sh (c, r)) (letters_from ''CDEFGHIJKLMNOP''))
                                @ [CHR 0x0A]))
                 [DATA_START_ROW ..< Suc lastTimeLine])"




subsection \<open>New week\<close>




subsection \<open>Highlights\<close>


text \<open>
  The pattern \<^verbatim>\<open>^(\d{1,2}):(\d{2})$\<close> and the value \<^verbatim>\<open>hours + minutes / 60\<close>: a division
  and an addition of doubles, whose results are far from the largest double.
\<close>

definition parse_hhmm :: "string \<Rightarrow> rat option" where
  "parse_hhmm s =
     (let h = takeWhile is_digit s;
          rest = dropWhile is_digit s
      in if (length h = 1 \<or> length h = 2) \<and> rest \<noteq> [] \<and> hd rest = CHR '':''
            \<and> length (tl rest) = 2 \<and> list_all is_digit (tl rest)
         then Some (rnd (rat_of_nat (digits_val h) + rnd (rat_of_nat (digits_val (tl rest)) / 60)))
         else None)"

text \<open>
  The time a cell of the time column stands for, in hours: a number up to 1 is a fraction of
  a day, a number up to 24 is hours, other numbers and other text are skipped.
\<close>

fun timeValue :: "cell \<Rightarrow> rat option" where
  "timeValue (Num (Fin c)) =
     (if c \<ge> 0 \<and> c \<le> 1 then Some (rnd (c * 24))
      else if c \<ge> 0 \<and> c \<le> 24 then Some c
      else None)"
| "timeValue (Num x) = None"
| "timeValue (Txt s) = parse_hhmm s"
| "timeValue (Flag b) = None"
| "timeValue Nul = None"

text \<open>
  The scan for the best row: \<open>i\<close> is the loop index, the pair is
  \<^verbatim>\<open>(bestRowIndex, bestTimeValue)\<close>, both \<open>-1\<close> at the start.
\<close>

fun best_row :: "rat \<Rightarrow> cell list \<Rightarrow> nat \<Rightarrow> int \<times> rat \<Rightarrow> int \<times> rat" where
  "best_row cutoff [] i best = best"
| "best_row cutoff (cellTime # rest) i (bestRowIndex, bestTimeValue) =
     (if cellTime = Txt [] \<or> cellTime = Nul then best_row cutoff rest (Suc i) (bestRowIndex, bestTimeValue)
      else (case timeValue cellTime of
              None \<Rightarrow> best_row cutoff rest (Suc i) (bestRowIndex, bestTimeValue)
            | Some tv \<Rightarrow>
                (if tv \<le> cutoff \<and> tv > bestTimeValue
                 then best_row cutoff rest (Suc i) (int i, tv)
                 else best_row cutoff rest (Suc i) (bestRowIndex, bestTimeValue))))"

text \<open>
  \<^verbatim>\<open>now.getHours() + now.getMinutes() / 60\<close>, and the bound
  \<^verbatim>\<open>currentTimeDecimal + 0.1\<close> of the scan.
\<close>

definition currentTimeDecimal :: "env \<Rightarrow> rat" where
  "currentTimeDecimal e = rnd (of_int (getHours (now e)) + rnd (of_int (getMinutes (now e)) / 60))"

definition timeBound :: "env \<Rightarrow> rat" where
  "timeBound e = rnd (currentTimeDecimal e + rnd (1 / 10))"

definition bestRowIndex :: "env \<Rightarrow> workbook \<Rightarrow> int" where
  "bestRowIndex e s =
     fst (best_row (timeBound e)
            (column_values (weekly s) ''B'' DATA_START_ROW lastTimeLine) 0 (- 1, - 1))"

definition highlightCurrentTimeRow :: "env \<Rightarrow> workbook \<Rightarrow> workbook" where
  "highlightCurrentTimeRow e s =
     (let f0 = clear_fill [''B''] 5 lastTimeLine (weekly_fill s);
          best = bestRowIndex e s
      in if best \<ge> 0
         then (let r = DATA_START_ROW + nat best;
                   f1 = f0((''B'', r) := Some CURRENT_TIME);
                   taskCol = int (dIndex s) * 2 + 3;
                   scoreCol = int (dIndex s) * 2 + 4;
                   taskColLetter = indexToColumnLetter (taskCol - 1);
                   scoreColLetter = indexToColumnLetter (scoreCol - 1)
               in if \<not> has_value (weekly s (scoreColLetter, r))
                  then s\<lparr>weekly_fill := (f1((taskColLetter, r) := Some CURRENT_TIME))
                                          ((scoreColLetter, r) := Some CURRENT_TIME)\<rparr>
                  else s\<lparr>weekly_fill := f1\<rparr>)
         else s\<lparr>weekly_fill := f0\<rparr>)"

subsection \<open>Opening the Weekly sheet\<close>




subsection \<open>Summary sheet\<close>

fun find_index :: "('a \<Rightarrow> bool) \<Rightarrow> 'a list \<Rightarrow> nat option" where
  "find_index P [] = None"
| "find_index P (x # xs) = (if P x then Some 0 else map_option Suc (find_index P xs))"

text \<open>
  The row of today in the Summary sheet: the first row of \<^verbatim>\<open>A1:A(summaryL + 1)\<close> whose
  value prints as today's \<^verbatim>\<open>YYYYMMDD\<close>, or else the new row \<^verbatim>\<open>summaryL + 1\<close>.
\<close>

definition summaryRow :: "env \<Rightarrow> workbook \<Rightarrow> sheet \<Rightarrow> nat" where
  "summaryRow e s sm =
     (case find_index (\<lambda>v. js_string (numToString e) v = formatDateYYYYMMDD (numToString e) (now e))
             (column_values sm SUMMARY_DATE_COLUMN 1 (summaryL s + 1)) of
        Some i \<Rightarrow> i + 1
      | None \<Rightarrow> summaryL s + 1)"

definition updateSummary :: "env \<Rightarrow> number \<Rightarrow> number \<Rightarrow> workbook \<Rightarrow> workbook" where
  "updateSummary e positiveScore negativeScore s =
     (case summary s of
        None \<Rightarrow> s
      | Some sm \<Rightarrow>
          (let todayStr = formatDateYYYYMMDD (numToString e) (now e);
               found = find_index (\<lambda>v. js_string (numToString e) v = todayStr)
                         (column_values sm SUMMARY_DATE_COLUMN 1 (summaryL s + 1));
               r = summaryRow e s sm;
               sm1 = (if found = None then sm((SUMMARY_DATE_COLUMN, r) := Txt todayStr) else sm);
               L = (if found = None then r else summaryL s);
               sm2 = (if dlt (Fin 0) positiveScore
                      then sm1((POSITIVE_SCORE_COLUMN, r) :=
                                 Num (dadd (float_or (sm1 (POSITIVE_SCORE_COLUMN, r)) (Fin 0)) positiveScore))
                      else sm1);
               sm3 = (if dlt negativeScore (Fin 0)
                      then sm2((NEGATIVE_SCORE_COLUMN, r) :=
                                 Num (dadd (float_or (sm2 (NEGATIVE_SCORE_COLUMN, r)) (Fin 0)) negativeScore))
                      else sm2);
               currentTotal = float_or (sm3 (TOTAL_SCORE_COLUMN, r)) (Fin 0);
               sm4 = sm3((TOTAL_SCORE_COLUMN, r) :=
                           Num (dadd (dadd currentTotal positiveScore) negativeScore))
           in s\<lparr>summary := Some sm4, summaryL := L\<rparr>))"

subsection \<open>Random pick\<close>

text \<open>
  The loop over the rows of the time column. The two ranges were loaded before the loop, so
  the tests read the sheet \<open>orig\<close> as it was; \<open>filledCount\<close> also counts the calls of
  \<^verbatim>\<open>Math.random()\<close>, whose results lie in \<open>[0, 1)\<close>. The index is the integer part of
  the exact product of the random number and the number of tasks.
\<close>

fun random_fill :: "env \<Rightarrow> cell list \<Rightarrow> string \<Rightarrow> sheet \<Rightarrow> nat list \<Rightarrow> sheet \<times> nat \<Rightarrow> sheet \<times> nat" where
  "random_fill e ts taskColLetter orig [] acc = acc"
| "random_fill e ts taskColLetter orig (r # rs) (sh, filledCount) =
     (let hasTime = has_value (orig (''B'', r));
          hasTask = has_value (orig (taskColLetter, r))
      in if hasTime \<and> \<not> hasTask
         then (let randomIndex = nat \<lfloor>random e filledCount * of_nat (length ts)\<rfloor>;
                   randomTask = ts ! randomIndex
               in random_fill e ts taskColLetter orig rs
                    (sh((taskColLetter, r) := randomTask), Suc filledCount))
         else random_fill e ts taskColLetter orig rs (sh, filledCount))"

definition randomPick :: "env \<Rightarrow> workbook \<Rightarrow> workbook" where
  "randomPick e s =
     (case tasks s of
        None \<Rightarrow> showStatus ''Tasks sheet not found!'' ''error'' s
      | Some tsh \<Rightarrow>
          (let ts = filter (\<lambda>t. truthy t \<and> t \<noteq> Txt []) (column_values tsh ''A'' 4 (taskl s))
           in if length ts = 0 then showStatus ''No tasks available for random pick'' ''error'' s
              else (let taskColumn = int (dIndex s) * 2 + 3;
                        taskColLetter = indexToColumnLetter (taskColumn - 1);
                        (sh, filledCount) =
                           random_fill e ts taskColLetter (weekly s)
                             [DATA_START_ROW ..< Suc lastTimeLine] (weekly s, 0)
                    in if filledCount > 0
                       then showStatus (emoji_dice @ '' Filled '' @
                                        num_str (numToString e) (of_nat filledCount) @
                                        '' slots with random tasks!'') ''success''
                              (s\<lparr>weekly := sh\<rparr>)
                       else showStatus ''No empty task slots with timestamps found'' ''info''
                              (s\<lparr>weekly := sh\<rparr>))))"

subsection \<open>Selection on the Weekly sheet\<close>

text \<open>
  \<^verbatim>\<open>getRange(address).getOffsetRange(0, -1)\<close> is resolved by the host, in the
  spreadsheet's own column numbering (\<open>A\<close> is 1, \<open>Z\<close> is 26, \<open>AA\<close> is 27). The event
  address is the address of one cell, whose letters and row number are the \<open>column\<close>
  and \<open>row\<close> that \<open>parseAddress\<close> extracts.
\<close>

definition host_column_number :: "string \<Rightarrow> int" where
  "host_column_number letters = foldl (\<lambda>n c. n * 26 + (of_char c - 64)) 0 letters"

definition left_of :: "string \<Rightarrow> string" where
  "left_of letters = indexToColumnLetter (host_column_number letters - 2)"

definition handleWeeklySelection :: "env \<Rightarrow> string \<Rightarrow> int \<Rightarrow> nat \<Rightarrow> workbook \<Rightarrow> workbook" where
  "handleWeeklySelection e col colIdx r s =
     (if r = CONTROL_ROW
      then (if colIdx = BUTTON_HELP then toggleSection ''weekly-help'' s
            else if colIdx = BUTTON_ADD then toggleSection ''add-task-section'' s
            else if colIdx = BUTTON_DELETE then toggleSection ''delete-task-section'' s
            else if colIdx = BUTTON_RANDOM then randomPick e s
            else if colIdx = BUTTON_THANK then toggleSection ''thank-section'' s
            else s)
      else if colIdx \<in> set TASK_COLUMNS \<and> r \<ge> DATA_START_ROW \<and> r \<le> lastTimeLine
      then showStatus ''Select a task from the dropdown, or use Add Task to create new.'' ''info'' s
      else if colIdx \<in> set SCORE_COLUMNS \<and> r \<ge> DATA_START_ROW \<and> r < scoreLine
      then (if \<not> truthy (weekly s (left_of col, r))
            then showWarningPopup ''Please select a task first!'' s
            else if weekly s (col, r) \<noteq> Txt [] \<and> weekly s (col, r) \<noteq> Nul
            then showStatus (''Score can'' @ [CHR 0x27] @ ''t be modified once set.'') ''warning'' s
            else showStatus ''Enter a score (0, 0.2, 0.4, 0.6, 0.8, or 1)'' ''info'' s)
      else s)"

subsection \<open>Score entry\<close>

text \<open>
  The search of the Tasks ledger: the result is \<^verbatim>\<open>(taskIndex, othersIndex)\<close>, \<open>None\<close>
  standing for \<open>-1\<close>; the loop stops at the first row equal to the task name.
\<close>

fun find_task :: "cell \<Rightarrow> cell list \<Rightarrow> nat \<Rightarrow> nat option \<Rightarrow> nat option \<times> nat option" where
  "find_task taskName [] i othersIndex = (None, othersIndex)"
| "find_task taskName (v # vs) i othersIndex =
     (if v = taskName then (Some (i + 4), othersIndex)
      else find_task taskName vs (Suc i) (if v = Txt ''others'' then Some (i + 4) else othersIndex))"

text \<open>
  What the pipeline can throw: the host's error for a sheet that does not exist, and the
  \<^verbatim>\<open>TypeError\<close> of a method call on \<^verbatim>\<open>null\<close>.
\<close>

datatype error = ItemNotFound | TypeError

text \<open>
  The result of the ledger search is the row of the task, its weight and the ledger after a
  possible creation of the row \<open>others\<close>.
\<close>

definition resolve_task :: "env \<Rightarrow> workbook \<Rightarrow> sheet \<Rightarrow> cell \<Rightarrow> nat \<times> number \<times> sheet \<times> nat" where
  "resolve_task e s tsh taskName =
     (case find_task taskName (column_values tsh ''A'' 4 (taskl s)) 0 None of
        (Some taskIndex, _) \<Rightarrow> (taskIndex, float_or (tsh (''B'', taskIndex)) (Fin 1), tsh, taskl s)
      | (None, Some othersIndex) \<Rightarrow> (othersIndex, float_or (tsh (''B'', othersIndex)) (Fin 1), tsh, taskl s)
      | (None, None) \<Rightarrow>
          (let taskIndex = taskl s + 1
           in (taskIndex, Fin 1,
               ((tsh((''A'', taskIndex) := Txt ''others''))
                    ((''B'', taskIndex) := Num (Fin 1)))
                    ((''C'', taskIndex) := Txt (formatDateTime (numToString e) (now e))),
               taskIndex)))"

definition score_color :: "number \<Rightarrow> string" where
  "score_color weightedScore =
     (if dlt (Fin 0) weightedScore then POSITIVE
      else if dlt weightedScore (Fin 0) then NEGATIVE else NEUTRAL)"

text \<open>
  \<^verbatim>\<open>processWeeklyScoreChange\<close>. After the test of the task name the code computes the
  target day with \<^verbatim>\<open>state.weekly.lastMonday.getDate()\<close>, which throws while
  \<^verbatim>\<open>lastMonday\<close> is \<^verbatim>\<open>null\<close>; the day itself is not used afterwards.
\<close>

definition processWeeklyScoreChange :: "env \<Rightarrow> nat \<Rightarrow> int \<Rightarrow> number \<Rightarrow> workbook \<Rightarrow> error + workbook" where
  "processWeeklyScoreChange e r col newScore s =
     (case tasks s of
        None \<Rightarrow> Inl ItemNotFound
      | Some tsh \<Rightarrow>
          (let taskColLetter = indexToColumnLetter (col - 2);
               taskName = weekly s (taskColLetter, r)
           in if \<not> truthy taskName then Inr s
              else (case lastMonday s of
                      None \<Rightarrow> Inl TypeError
                    | Some monday \<Rightarrow>
                   (let (taskIndex, taskWeight, tsh1, taskl1) = resolve_task e s tsh taskName;
                        weightedScore = dmul taskWeight newScore;
                        scoreColLetter = indexToColumnLetter (col - 1);
                        color = score_color weightedScore;
                        fill1 = ((weekly_fill s)((scoreColLetter, r) := Some color))
                                               ((taskColLetter, r) := Some color);
                        currentDailyTotal = float_or (weekly s (scoreColLetter, scoreLine)) (Fin 0);
                        sh1 = (weekly s)((scoreColLetter, scoreLine) :=
                                           Num (dadd currentDailyTotal weightedScore));
                        s1 = updateSummary e (if dlt (Fin 0) weightedScore then weightedScore else Fin 0)
                                             (if dlt weightedScore (Fin 0) then weightedScore else Fin 0)
                               (s\<lparr>weekly := sh1, weekly_fill := fill1, taskl := taskl1\<rparr>);
                        tsh2 = tsh1((''D'', taskIndex) := Txt (formatDateTime (numToString e) (now e)));
                        tsh3 = (tsh2((''F'', taskIndex) :=
                                       Num (dadd (dbl (of_int (int_or (numToString e) (tsh2 (''F'', taskIndex)) 0)))
                                                 (Fin 1))))
                                    ((''G'', taskIndex) :=
                                       Num (dadd (float_or (tsh2 (''G'', taskIndex)) (Fin 0)) weightedScore))
                    in Inr (showStatus
                              (emoji_memo @ '' '' @ [CHR 0x22] @ js_string (numToString e) taskName @ [CHR 0x22]
                               @ '' scored: '' @ toFixed2 (numToString e) weightedScore
                               @ '' (Daily: '' @ toFixed2 (numToString e) (dadd currentDailyTotal weightedScore)
                               @ '')'')
                              ''success''
                              (s1\<lparr>tasks := Some tsh3\<rparr>))))))"

section \<open>habits.js\<close>

text \<open>
  The streak loop \<^verbatim>\<open>for (d = currentDayIndex - 1; d >= 0; d--)\<close>: \<open>habit_streak h r n\<close>
  starts at day column \<open>n - 1\<close> and counts until the first cell that is not truthy.
\<close>

fun habit_streak :: "sheet \<Rightarrow> nat \<Rightarrow> nat \<Rightarrow> nat" where
  "habit_streak h r 0 = 0"
| "habit_streak h r (Suc d) =
     (let prevCol = indexToColumnLetter (columnLetterToIndex DAY_START + int d)
      in if truthy (h (prevCol, r)) \<and> h (prevCol, r) \<noteq> Num (Fin 0)
         then Suc (habit_streak h r d)
         else 0)"

text \<open>
  \<^verbatim>\<open>baseScore * Math.pow(CONFIG.HABITS.STREAK_MULTIPLIER, streak)\<close> with
  \<^verbatim>\<open>baseScore = parseFloat(cell) || 1\<close>.
\<close>

definition habit_weightedScore :: "env \<Rightarrow> workbook \<Rightarrow> nat \<Rightarrow> number" where
  "habit_weightedScore e s r =
     (let streak = habit_streak (habits s) r (nat (currentDayIndex s));
          baseScore = float_or (habits s (''C'', r)) (Fin 1)
      in dmul baseScore (pow e STREAK_MULTIPLIER (Fin (of_nat streak))))"

definition recordHabitDone :: "env \<Rightarrow> nat \<Rightarrow> workbook \<Rightarrow> workbook" where
  "recordHabitDone e r s =
     (if currentDayIndex s < 0
      then showStatus ''Current date not found. Click Refresh Dates.'' ''error'' s
      else (let habitName = habits s (''A'', r)
            in if \<not> truthy habitName then s
               else (let dayColIndex = columnLetterToIndex DAY_START + currentDayIndex s;
                         dayColumn = indexToColumnLetter dayColIndex;
                         streak = habit_streak (habits s) r (nat (currentDayIndex s));
                         weightedScore = habit_weightedScore e s r;
                         currentCount = dbl (of_int (int_or (numToString e) (habits s (dayColumn, r)) 0));
                         h1 = (habits s)((dayColumn, r) := Num (dadd currentCount (Fin 1)));
                         total = dbl (of_int (int_or (numToString e) (h1 (''R'', r)) 0));
                         h2 = h1((''R'', r) := Num (dadd total (Fin 1)));
                         f1 = (habits_fill s)((''B'', r) := Some POSITIVE);
                         s1 = updateSummary e weightedScore (Fin 0) (s\<lparr>habits := h2, habits_fill := f1\<rparr>);
                         streakMsg = (if streak > 0
                                      then '' '' @ emoji_fire @ '' '' @
                                           num_str (numToString e) (of_nat (streak + 1)) @ ''-day streak!''
                                      else [])
                     in showStatus (emoji_check @ '' '' @ [CHR 0x22] @ js_string (numToString e) habitName
                                    @ [CHR 0x22] @ '' +'' @ toFixed2 (numToString e) weightedScore
                                    @ '' pts'' @ streakMsg) ''success'' s1)))"

definition handleHabitsSelection :: "env \<Rightarrow> string \<Rightarrow> nat \<Rightarrow> workbook \<Rightarrow> workbook" where
  "handleHabitsSelection e col r s =
     (if col = ''A'' \<and> r \<ge> HABITS_DATA_START_ROW \<and> r \<le> lastRow s then recordHabitDone e r s
      else if col = ''A'' \<and> r = 2 then toggleSection ''habits-help'' s
      else s)"

section \<open>events.js\<close>

definition handleSelectionChanged :: "env \<Rightarrow> string \<Rightarrow> workbook \<Rightarrow> workbook" where
  "handleSelectionChanged e addr s =
     (case parseAddress addr of
        None \<Rightarrow> s
      | Some p \<Rightarrow>
          (if currentSheet s = Some HABITS_SHEET then handleHabitsSelection e (column p) (row p) s
           else if currentSheet s = Some WEEKLY_SHEET
           then handleWeeklySelection e (column p) (colIndex p) (row p) s
           else s))"

text \<open>
  \<^verbatim>\<open>handleCellChanged\<close>: an exception of the pipeline is caught and logged, the workbook
  stays as it was before the failing call.
\<close>

definition handleCellChanged :: "env \<Rightarrow> string \<Rightarrow> workbook \<Rightarrow> workbook" where
  "handleCellChanged e addr s =
     (if currentSheet s \<noteq> Some WEEKLY_SHEET then s
      else (case parseAddress addr of
              None \<Rightarrow> s
            | Some p \<Rightarrow>
                (if colIndex p \<in> set SCORE_COLUMNS \<and> row p \<ge> DATA_START_ROW \<and> row p \<le> lastTimeLine
                 then (let scoreValue = parseFloat (weekly s (column p, row p))
                       in if scoreValue = NaN then s
                          else (case processWeeklyScoreChange e (row p) (colIndex p) scoreValue s of
                                  Inl err \<Rightarrow> s
                                | Inr s' \<Rightarrow> s'))
                 else s)))"

section \<open>Reference notions and example workbooks\<close>

text \<open>
  The words of the specification for the row to highlight: a row qualifies when it has a
  candidate time that is at most the cutoff; \<open>first_maximal cutoff cs b\<close> says that row
  \<open>b\<close> qualifies, that no qualifying row has a later time, and that every qualifying row
  above \<open>b\<close> has a strictly earlier time.
\<close>

definition qualifies :: "rat \<Rightarrow> cell \<Rightarrow> bool" where
  "qualifies cutoff c = (case timeValue c of Some tv \<Rightarrow> tv \<le> cutoff | None \<Rightarrow> False)"

definition candidateTime :: "cell \<Rightarrow> rat" where
  "candidateTime c = (case timeValue c of Some tv \<Rightarrow> tv | None \<Rightarrow> 0)"

definition first_maximal :: "rat \<Rightarrow> cell list \<Rightarrow> nat \<Rightarrow> bool" where
  "first_maximal cutoff cs b =
     (b < length cs \<and> qualifies cutoff (cs ! b)
      \<and> list_all (\<lambda>k. qualifies cutoff (cs ! k) \<longrightarrow> candidateTime (cs ! k) \<le> candidateTime (cs ! b))
           [0 ..< length cs]
      \<and> list_all (\<lambda>k. qualifies cutoff (cs ! k) \<longrightarrow> candidateTime (cs ! k) < candidateTime (cs ! b))
           [0 ..< b])"






text \<open>
  Example inputs. The clock reads Tuesday 2024-12-17, 15:45, and in the second environment
  8:44 of the same day. \<^verbatim>\<open>Math.pow\<close> is, for the examples, the double nearest to the
  exact power of a finite base with a natural exponent. The workbook is open on the Weekly
  sheet, with empty sheets and the state that \<^verbatim>\<open>state.js\<close> starts with.
\<close>

fun nearest_pow :: "number \<Rightarrow> number \<Rightarrow> number" where
  "nearest_pow (Fin a) (Fin b) = (if b = of_int \<lfloor>b\<rfloor> \<and> 0 \<le> b then dbl (a ^ nat \<lfloor>b\<rfloor>) else NaN)"
| "nearest_pow x y = NaN"

definition blank_sheet :: sheet where
  "blank_sheet = (\<lambda>a. Txt [])"

definition no_fill :: fills where
  "no_fill = (\<lambda>a. None)"

definition tuesday_afternoon :: env where
  "tuesday_afternoon =
     \<lparr> now = 20074 * oneDay + 15 * 3600000 + 45 * 60000,
       random = (\<lambda>k. 1 / 2),
       numToString = (\<lambda>x. ''?''),
       pow = nearest_pow \<rparr>"

definition tuesday_morning :: env where
  "tuesday_morning = tuesday_afternoon\<lparr>now := 20074 * oneDay + 8 * 3600000 + 44 * 60000\<rparr>"

definition blank_workbook :: workbook where
  "blank_workbook =
     \<lparr> weekly = blank_sheet, weekly_fill = no_fill, habits = blank_sheet, habits_fill = no_fill,
       tasks = Some blank_sheet, summary = Some blank_sheet, currentSheet = Some WEEKLY_SHEET,
       currentDayIndex = - 1, lastRow = 4, dIndex = 1, lastMonday = None, taskl = 4,
       summaryL = 1, lastInitDate = None, status = None, modal = None,
       sections = (\<lambda>i. None), downloads = [] \<rparr>"

text \<open>Two rows with the same time 9:00, in rows 5 and 6.\<close>

definition tie_workbook :: workbook where
  "tie_workbook =
     blank_workbook\<lparr>weekly := blank_sheet((''B'', 5) := Num (Fin 9), (''B'', 6) := Num (Fin 9))\<rparr>"

text \<open>The slots 8:00 and 8:50, in rows 5 and 6.\<close>

definition morning_workbook :: workbook where
  "morning_workbook =
     blank_workbook\<lparr>weekly := blank_sheet((''B'', 5) := Txt ''8:00'', (''B'', 6) := Txt ''8:50'')\<rparr>"

text \<open>A time column that holds the raw hour 15.5 in row 5.\<close>

definition raw_hour_sheet :: sheet where
  "raw_hour_sheet = blank_sheet((''B'', 5) := Num (Fin (31 / 2)))"

text \<open>
  Tuesday's task column is E. Row 5 has a time and no task, row 6 has a time and the task
  \<open>Plan\<close>; the ledger holds the one task \<open>Deep Work\<close>.
\<close>

definition pick_workbook :: workbook where
  "pick_workbook =
     blank_workbook
       \<lparr>weekly := blank_sheet((''B'', 5) := Num (Fin (3 / 8)), (''B'', 6) := Num (Fin (1 / 2)),
                               (''E'', 6) := Txt ''Plan''),
        tasks := Some (blank_sheet((''A'', 4) := Txt ''Deep Work''))\<rparr>"

text \<open>
  The Weekly sheet has been opened in the week of Monday 2024-12-16. The slot of row 5 on
  Monday holds the task \<open>Deep Work\<close> and the score 0.6; the Monday total so far is 0.6.
  The ledger has \<open>Email\<close> in row 4 and \<open>Deep Work\<close> in row 5, with weight 2, use count 3
  and cumulative score 1.2. Today's row of the Summary sheet is row 2, with 1.2 in the
  positive and in the total column.
\<close>

definition deep_work_workbook :: workbook where
  "deep_work_workbook =
     blank_workbook
       \<lparr>weekly := blank_sheet((''C'', 5) := Txt ''Deep Work'', (''D'', 5) := Num (dbl (3 / 5)),
                               (''D'', 38) := Num (dbl (3 / 5))),
        tasks := Some (blank_sheet((''A'', 4) := Txt ''Email'', (''B'', 4) := Num (Fin 1),
                                   (''A'', 5) := Txt ''Deep Work'', (''B'', 5) := Num (Fin 2),
                                   (''F'', 5) := Num (Fin 3), (''G'', 5) := Num (dbl (6 / 5)))),
        summary := Some (blank_sheet((''A'', 2) := Txt ''20241217'', (''D'', 2) := Num (dbl (6 / 5)),
                                     (''F'', 2) := Num (dbl (6 / 5)))),
        lastMonday := Some (20073 * oneDay), taskl := 5, summaryL := 2\<rparr>"

text \<open>The same workbook before the Weekly sheet was ever opened.\<close>

definition unopened_workbook :: workbook where
  "unopened_workbook = deep_work_workbook\<lparr>lastMonday := None\<rparr>"








text \<open>
  A score typed into a slot that has no task, and a slot with the task \<open>Deep Work\<close> and
  the score 0.8.
\<close>

definition untasked_score_workbook :: workbook where
  "untasked_score_workbook = blank_workbook\<lparr>weekly := blank_sheet((''D'', 5) := Num (dbl (3 / 5)))\<rparr>"

definition rescored_workbook :: workbook where
  "rescored_workbook =
     blank_workbook
       \<lparr>weekly := blank_sheet((''C'', 5) := Txt ''Deep Work'', (''D'', 5) := Num (dbl (4 / 5)),
                               (''D'', 38) := Num (dbl (6 / 5))),
        tasks := Some (blank_sheet((''A'', 4) := Txt ''Deep Work'', (''B'', 4) := Num (Fin 2),
                                   (''F'', 4) := Num (Fin 1), (''G'', 4) := Num (dbl (6 / 5))))\<rparr>"




section \<open>Doubles\<close>

text \<open>
  Known values of the rounding: the literals 0.1 and 0.2 and their sum, which is
  0.30000000000000004; above \<open>2\<^sup>5\<^sup>3\<close> only every second integer is a double, and a tie
  goes to the even significand.
\<close>

lemma rounding_examples:
  "dbl (1 / 10) = Fin (3602879701896397 / 36028797018963968)"
  "dbl (1 / 5) = Fin (3602879701896397 / 18014398509481984)"
  "dadd (dbl (1 / 10)) (dbl (1 / 5)) = Fin (1351079888211149 / 4503599627370496)"
  "dbl (2 ^ 53 + 1) = Fin (2 ^ 53)"
  "dbl (2 ^ 53 + 3) = Fin (2 ^ 53 + 4)"
  "dbl (- (3 / 5)) = dneg (dbl (3 / 5))"
  by code_simp+

lemma pow2_powi: "pow2 e = 2 powi e"
  by (simp add: pow2_def power_int_def inverse_eq_divide power_one_over)

lemma pow2_pos: "0 < pow2 e"
  by (simp add: pow2_powi)

lemma pow2_add: "pow2 (a + b) = pow2 a * pow2 b"
  by (simp add: pow2_powi power_int_add)

lemma pow2_mono: "a \<le> b \<Longrightarrow> pow2 a \<le> pow2 b"
  by (simp add: pow2_powi power_int_increasing)

lemma pow2_strict_mono: "a < b \<Longrightarrow> pow2 a < pow2 b"
  by (simp add: pow2_powi power_int_strict_increasing)

lemma pow2_nat: "pow2 (int n) = 2 ^ n"
  by (simp add: pow2_def)

text \<open>\<open>ilog2\<close> is the binary exponent.\<close>

lemma ilog2_bounds:
  assumes "0 < x"
  shows "pow2 (ilog2 x) \<le> x \<and> x < pow2 (ilog2 x + 1)"
proof -
  obtain p q where pq: "quotient_of x = (p, q)" by (cases "quotient_of x")
  then have q: "0 < q" and x: "x = of_int p / of_int q"
    using quotient_of_denom_pos quotient_of_div by auto
  from assms x q have p: "0 < p" by (simp add: zero_less_divide_iff)
  let ?k = "bitlen p - bitlen q"
  from bitlen_bounds [OF p] have p1: "2 ^ nat (bitlen p - 1) \<le> p" and p2: "p < 2 ^ nat (bitlen p)" by auto
  from bitlen_bounds [OF q] have q1: "2 ^ nat (bitlen q - 1) \<le> q" and q2: "q < 2 ^ nat (bitlen q)" by auto
  have bp: "1 \<le> bitlen p" using p bitlen_eq_zero_iff [of p] bitlen_nonneg [of p] by linarith
  have bq: "1 \<le> bitlen q" using q bitlen_eq_zero_iff [of q] bitlen_nonneg [of q] by linarith
  have P1: "pow2 (bitlen p - 1) \<le> of_int p"
  proof -
    have "pow2 (bitlen p - 1) = 2 ^ nat (bitlen p - 1)" using bp by (simp add: pow2_def)
    also have "\<dots> = of_int (2 ^ nat (bitlen p - 1))" by simp
    also have "\<dots> \<le> of_int p" using p1 by (simp only: of_int_le_iff)
    finally show ?thesis .
  qed
  have P2: "of_int p < pow2 (bitlen p)"
  proof -
    have "(of_int p :: rat) < of_int (2 ^ nat (bitlen p))" using p2 by (simp only: of_int_less_iff)
    also have "\<dots> = pow2 (bitlen p)" using bp by (simp add: pow2_def)
    finally show ?thesis .
  qed
  have Q1: "pow2 (bitlen q - 1) \<le> of_int q"
  proof -
    have "pow2 (bitlen q - 1) = 2 ^ nat (bitlen q - 1)" using bq by (simp add: pow2_def)
    also have "\<dots> = of_int (2 ^ nat (bitlen q - 1))" by simp
    also have "\<dots> \<le> of_int q" using q1 by (simp only: of_int_le_iff)
    finally show ?thesis .
  qed
  have Q2: "of_int q < pow2 (bitlen q)"
  proof -
    have "(of_int q :: rat) < of_int (2 ^ nat (bitlen q))" using q2 by (simp only: of_int_less_iff)
    also have "\<dots> = pow2 (bitlen q)" using bq by (simp add: pow2_def)
    finally show ?thesis .
  qed
  have qpos: "(0::rat) < of_int q" using q by simp
  have lo: "pow2 (?k - 1) \<le> x"
  proof -
    have "pow2 (?k - 1) * of_int q \<le> pow2 (?k - 1) * pow2 (bitlen q)"
      using Q2 pow2_pos [of "?k - 1"] by (simp add: less_imp_le)
    also have "\<dots> = pow2 (bitlen p - 1)" by (simp add: pow2_add [symmetric])
    also have "\<dots> \<le> of_int p" by (rule P1)
    finally show ?thesis using qpos by (simp add: x pos_le_divide_eq)
  qed
  have hi: "x < pow2 (?k + 1)"
  proof -
    have "of_int p < pow2 (bitlen p)" by (rule P2)
    also have "\<dots> = pow2 (?k + 1) * pow2 (bitlen q - 1)" by (simp add: pow2_add [symmetric])
    also have "\<dots> \<le> pow2 (?k + 1) * of_int q"
      using Q1 pow2_pos [of "?k + 1"] by simp
    finally show ?thesis using qpos by (simp add: x pos_divide_less_eq)
  qed
  have il: "ilog2 x = (if pow2 ?k \<le> x then ?k else ?k - 1)"
    by (simp add: ilog2_def pq)
  show ?thesis
  proof (cases "pow2 ?k \<le> x")
    case True
    with il hi show ?thesis by simp
  next
    case False
    with il lo show ?thesis by simp
  qed
qed



lemma round_even_nonneg: "0 \<le> y \<Longrightarrow> 0 \<le> round_even y"
  by (auto simp: round_even_def Let_def)

lemma rnd_nonneg: "0 \<le> x \<Longrightarrow> 0 \<le> rnd x"
  by (auto simp: rnd_def Let_def sgn_if intro!: mult_nonneg_nonneg round_even_nonneg divide_nonneg_pos pow2_pos less_imp_le [OF pow2_pos])




lemma ilog2_less:
  assumes "0 < x" "x < pow2 k"
  shows "ilog2 x < k"
proof (rule ccontr)
  assume "\<not> ilog2 x < k"
  then have "k \<le> ilog2 x" by simp
  from pow2_mono [OF this] ilog2_bounds [OF assms(1)] assms(2) show False by linarith
qed










section \<open>Reading and printing cells\<close>

lemma digit_char_table:
  "\<forall>k \<in> set [0 ..< 10]. is_digit (digit_char k) \<and> digit_val (digit_char k) = k
      \<and> \<not> is_space (digit_char k) \<and> digit_char k \<noteq> CHR ''-'' \<and> digit_char k \<noteq> CHR ''+''
      \<and> digit_char k \<noteq> CHR ''x'' \<and> digit_char k \<noteq> CHR ''X''"
  by code_simp

lemma digit_char_props:
  "is_digit (digit_char k)" "digit_val (digit_char k) = k mod 10"
  "\<not> is_space (digit_char k)" "digit_char k \<noteq> CHR ''-''" "digit_char k \<noteq> CHR ''+''"
  "digit_char k \<noteq> CHR ''x''" "digit_char k \<noteq> CHR ''X''"
proof -
  have m: "k mod 10 \<in> set [0 ..< 10]" by simp
  have e: "digit_char k = digit_char (k mod 10)" by (simp add: digit_char_def)
  from digit_char_table m have
    "is_digit (digit_char (k mod 10)) \<and> digit_val (digit_char (k mod 10)) = k mod 10
      \<and> \<not> is_space (digit_char (k mod 10)) \<and> digit_char (k mod 10) \<noteq> CHR ''-''
      \<and> digit_char (k mod 10) \<noteq> CHR ''+''
      \<and> digit_char (k mod 10) \<noteq> CHR ''x'' \<and> digit_char (k mod 10) \<noteq> CHR ''X''"
    by blast
  then show "is_digit (digit_char k)" "digit_val (digit_char k) = k mod 10"
    "\<not> is_space (digit_char k)" "digit_char k \<noteq> CHR ''-''" "digit_char k \<noteq> CHR ''+''"
    "digit_char k \<noteq> CHR ''x''" "digit_char k \<noteq> CHR ''X''"
    unfolding e [symmetric] by simp_all
qed

lemma show_nat_digits: "list_all is_digit (show_nat n) \<and> show_nat n \<noteq> []"
proof (induction n rule: show_nat.induct)
  case (1 n)
  show ?case
  proof (cases "n < 10")
    case True
    then show ?thesis by (simp add: show_nat.simps [of n] digit_char_props)
  next
    case False
    with 1 show ?thesis by (simp add: show_nat.simps [of n] digit_char_props)
  qed
qed



lemma show_nat_second:
  "show_nat n = a # b # r \<Longrightarrow> is_digit b"
  using show_nat_digits [of n] by simp









section \<open>Column letters\<close>

text \<open>
  C1. The two conversions are meant to be inverse to each other. The encoder
  \<open>indexToColumnLetter\<close> uses the spreadsheet numbering (\<open>Z\<close> is 25, \<open>AA\<close> is 26),
  the decoder \<open>columnLetterToIndex\<close> reads plain base 26 with \<open>A\<close> as digit zero, so it
  sends \<open>AA\<close> to 0: the round trip of the string \<open>AA\<close> gives \<open>A\<close>, and the round trip of
  the index 26 gives 0.
\<close>

theorem column_round_trip_fails_at_AA:
  "columnLetterToIndex ''AA'' = 0
   \<and> indexToColumnLetter (columnLetterToIndex ''AA'') = ''A''
   \<and> indexToColumnLetter 26 = ''AA''
   \<and> columnLetterToIndex (indexToColumnLetter 26) = 0"
  by code_simp



section \<open>Cell addresses\<close>

text \<open>
  C9. For \<open>AB123\<close> the column \<open>AB\<close> and the row 123 come out as the specification says,
  and \<open>foo\<close> gives null. The column index does not: the code's comment calls it 1-based,
  and it is computed by \<open>columnLetterToIndex\<close>, which sends \<open>AB\<close> to 1 (see C1), so the
  index returned is 2, the same as for column \<open>B\<close>, where the spreadsheet's own numbering
  of \<open>AB\<close> is 28.
\<close>

theorem parseAddress_AB123_colIndex:
  "parseAddress ''AB123'' = Some \<lparr>column = ''AB'', colIndex = 2, row = 123\<rparr>
   \<and> parseAddress ''B123'' = Some \<lparr>column = ''B'', colIndex = 2, row = 123\<rparr>
   \<and> host_column_number ''AB'' = 28
   \<and> parseAddress ''foo'' = None"
  by code_simp

section \<open>The archive's time column\<close>

text \<open>
  C8. The archive takes every number in the time column as a fraction of a day. The raw
  hour 15.5, which the highlighter of the same column reads as 15:30, is multiplied by 24 and
  printed as \<open>372:00\<close>.
\<close>

theorem archive_raw_hour:
  "archive_time ns (Num (Fin (31 / 2))) = ''372:00''
   \<and> week_csv ns raw_hour_sheet = csv_headers @ [CHR 0x0A] @ ''372:00,,,,,,,,,,,,,,'' @ [CHR 0x0A]"
  by code_simp

section \<open>The row of the current time\<close>

lemma timeValue_nonneg: "timeValue c = Some tv \<Longrightarrow> 0 \<le> tv"
proof (cases c)
  case (Num x)
  assume "timeValue c = Some tv"
  with Num show ?thesis
    by (cases x) (auto simp: rnd_nonneg split: if_splits)
next
  case (Txt s)
  assume "timeValue c = Some tv"
  with Txt show ?thesis
    by (auto simp: parse_hhmm_def Let_def intro!: rnd_nonneg add_nonneg_nonneg split: if_splits)
qed simp_all

lemma timeValue_blank: "timeValue (Txt []) = None" "timeValue Nul = None"
  by (simp_all add: parse_hhmm_def)

text \<open>Rows that do not beat the best time so far leave the pair as it is.\<close>

lemma best_row_keep:
  "\<forall>c \<in> set cs. qualifies cutoff c \<longrightarrow> candidateTime c \<le> bt \<Longrightarrow>
   best_row cutoff cs i (bi, bt) = (bi, bt)"
  by (induction cs arbitrary: i) (auto simp: qualifies_def candidateTime_def split: option.splits)

lemma best_row_first:
  assumes "b < length cs" "qualifies cutoff (cs ! b)"
    and "\<forall>k < length cs. qualifies cutoff (cs ! k) \<longrightarrow> candidateTime (cs ! k) \<le> candidateTime (cs ! b)"
    and "\<forall>k < b. qualifies cutoff (cs ! k) \<longrightarrow> candidateTime (cs ! k) < candidateTime (cs ! b)"
    and "bt < candidateTime (cs ! b)"
  shows "best_row cutoff cs i (bi, bt) = (int (i + b), candidateTime (cs ! b))"
  using assms
proof (induction cs arbitrary: i b bi bt)
  case Nil
  then show ?case by simp
next
  case (Cons c cs)
  show ?case
  proof (cases b)
    case 0
    from Cons.prems(2) 0 obtain tv where tv: "timeValue c = Some tv" "tv \<le> cutoff"
      by (auto simp: qualifies_def split: option.splits)
    then have ct: "candidateTime c = tv" by (simp add: candidateTime_def)
    from tv have nb: "c \<noteq> Txt []" "c \<noteq> Nul" using timeValue_blank by auto
    have rest: "\<forall>x \<in> set cs. qualifies cutoff x \<longrightarrow> candidateTime x \<le> tv"
    proof
      fix x assume "x \<in> set cs"
      then obtain k where "k < length cs" "cs ! k = x" by (auto simp: in_set_conv_nth)
      with Cons.prems(3) 0 ct show "qualifies cutoff x \<longrightarrow> candidateTime x \<le> tv"
        by (auto dest: spec [of _ "Suc k"])
    qed
    from Cons.prems(5) 0 ct have "tv > bt" by simp
    with tv nb 0 ct best_row_keep [OF rest] show ?thesis by simp
  next
    case (Suc b')
    have p1: "b' < length cs" using Cons.prems(1) Suc by simp
    have p2: "qualifies cutoff (cs ! b')" using Cons.prems(2) Suc by simp
    have p3: "\<forall>k < length cs. qualifies cutoff (cs ! k) \<longrightarrow> candidateTime (cs ! k) \<le> candidateTime (cs ! b')"
      using Cons.prems(3) Suc by (auto dest: spec [of _ "Suc k" for k])
    have p4: "\<forall>k < b'. qualifies cutoff (cs ! k) \<longrightarrow> candidateTime (cs ! k) < candidateTime (cs ! b')"
      using Cons.prems(4) Suc by (auto dest: spec [of _ "Suc k" for k])
    have p5: "bt < candidateTime (cs ! b')" using Cons.prems(5) Suc by simp
    have c0: "qualifies cutoff c \<longrightarrow> candidateTime c < candidateTime (cs ! b')"
      using Cons.prems(4) Suc by (auto dest: spec [of _ 0])
    have step: "\<And>bi' bt'. bt' < candidateTime (cs ! b') \<Longrightarrow>
        best_row cutoff cs (Suc i) (bi', bt') = (int (Suc i + b'), candidateTime (cs ! b'))"
      using Cons.IH [OF p1 p2 p3 p4] by blast
    show ?thesis
      using c0 p5 step Suc
      by (auto simp: qualifies_def candidateTime_def split: option.splits)
  qed
qed

lemma bestRowIndex_first_maximal:
  assumes "first_maximal (timeBound e)
             (column_values (weekly s) ''B'' DATA_START_ROW lastTimeLine) b"
  shows "bestRowIndex e s = int b"
proof -
  let ?cs = "column_values (weekly s) ''B'' DATA_START_ROW lastTimeLine"
  let ?L = "timeBound e"
  from assms have q: "b < length ?cs" "qualifies ?L (?cs ! b)"
    and m: "\<forall>k < length ?cs. qualifies ?L (?cs ! k) \<longrightarrow> candidateTime (?cs ! k) \<le> candidateTime (?cs ! b)"
    and f: "\<forall>k < b. qualifies ?L (?cs ! k) \<longrightarrow> candidateTime (?cs ! k) < candidateTime (?cs ! b)"
    by (simp_all add: first_maximal_def list_all_iff)
  from q(2) have "0 \<le> candidateTime (?cs ! b)"
    by (auto simp: qualifies_def candidateTime_def dest: timeValue_nonneg split: option.splits)
  then have "- 1 < candidateTime (?cs ! b)" by simp
  from best_row_first [OF q m f this, of 0 "- 1"] show ?thesis
    by (simp add: bestRowIndex_def)
qed

text \<open>
  C6, amended: the row that \<open>highlightCurrentTimeRow\<close> highlights is the row whose
  candidate time is the maximum among the candidates with \<open>candidateTime \<le> now + 0.1\<close>,
  and when several qualifying rows share that maximum it is the first (top-most) of them.
  No other cell of the time column keeps a fill. The candidate times and the bound
  \<open>now + 0.1\<close> are the doubles that the code computes and compares.
\<close>

theorem highlight_first_maximal_row:
  assumes "first_maximal (timeBound e)
             (column_values (weekly s) ''B'' DATA_START_ROW lastTimeLine) b"
  shows "bestRowIndex e s = int b
     \<and> weekly_fill (highlightCurrentTimeRow e s) (''B'', DATA_START_ROW + b) = Some CURRENT_TIME
     \<and> (\<forall>r. DATA_START_ROW \<le> r \<and> r \<le> lastTimeLine \<and> r \<noteq> DATA_START_ROW + b \<longrightarrow>
            weekly_fill (highlightCurrentTimeRow e s) (''B'', r) = None)"
proof -
  have b: "bestRowIndex e s = int b" by (rule bestRowIndex_first_maximal [OF assms])
  then show ?thesis
    by (auto simp: highlightCurrentTimeRow_def Let_def clear_fill_def in_block_def
        DATA_START_ROW_def lastTimeLine_def)
qed

theorem highlight_first_maximal_row_witness:
  "bestRowIndex tuesday_afternoon tie_workbook = 0
   \<and> weekly_fill (highlightCurrentTimeRow tuesday_afternoon tie_workbook) (''B'', DATA_START_ROW + 0)
       = Some CURRENT_TIME"
proof -
  have h: "first_maximal (timeBound tuesday_afternoon)
             (column_values (weekly tie_workbook) ''B'' DATA_START_ROW lastTimeLine) 0"
    by code_simp
  from highlight_first_maximal_row [OF h] show ?thesis by simp
qed

text \<open>
  C6 as stated fails: rows 5 and 6 both hold 9:00 and both qualify at 15:45; the later row 6
  is not the one highlighted, row 5 is.
\<close>

theorem latest_tie_not_highlighted:
  "timeValue (weekly tie_workbook (''B'', 5)) = Some 9
   \<and> timeValue (weekly tie_workbook (''B'', 6)) = Some 9
   \<and> currentTimeDecimal tuesday_afternoon = 63 / 4
   \<and> weekly_fill (highlightCurrentTimeRow tuesday_afternoon tie_workbook) (''B'', 5) = Some CURRENT_TIME
   \<and> weekly_fill (highlightCurrentTimeRow tuesday_afternoon tie_workbook) (''B'', 6) = None"
  by code_simp

text \<open>
  Rounding decides at the bound. At 8:44 the bound is the double 8.833333333333332, the slot
  \<open>8:50\<close> has the candidate time 8.833333333333334 and does not qualify, although 8:50 is
  six minutes, a tenth of an hour, after 8:44: the row of \<open>8:00\<close> is highlighted.
\<close>

lemma slot_at_the_bound:
  "timeBound tuesday_morning = 2486362294277461 / 281474976710656
   \<and> timeValue (weekly morning_workbook (''B'', 6)) = Some (4972724588554923 / 562949953421312)
   \<and> \<not> qualifies (timeBound tuesday_morning) (weekly morning_workbook (''B'', 6))
   \<and> bestRowIndex tuesday_morning morning_workbook = 0"
  by code_simp

section \<open>Random pick\<close>

lemma random_fill_other:
  "\<not> (c = tcol \<and> r \<in> set rows \<and> has_value (orig (''B'', r)) \<and> \<not> has_value (orig (tcol, r))) \<Longrightarrow>
   fst (random_fill e ts tcol orig rows (sh, k)) (c, r) = sh (c, r)"
  by (induction rows arbitrary: sh k) (auto simp: Let_def)

lemma random_index_in_range:
  assumes "0 \<le> x" "x < 1" "ts \<noteq> []"
  shows "nat \<lfloor>x * of_nat (length ts)\<rfloor> < length ts"
proof -
  have n: "0 < (of_nat (length ts) :: rat)" using assms(3) by simp
  have "x * of_nat (length ts) < of_nat (length ts)"
    using assms(2) n by (simp add: mult_less_cancel_right2)
  then have "\<lfloor>x * of_nat (length ts)\<rfloor> < int (length ts)"
    by (simp add: floor_less_iff)
  moreover have "0 \<le> \<lfloor>x * of_nat (length ts)\<rfloor>" using assms(1) by simp
  ultimately show ?thesis by linarith
qed

lemma random_fill_member:
  assumes "ts \<noteq> []" "\<forall>k. 0 \<le> random e k \<and> random e k < 1"
    and "has_value (orig (''B'', r))" "\<not> has_value (orig (tcol, r))"
  shows "r \<in> set rows \<or> sh (tcol, r) \<in> set ts \<Longrightarrow>
         fst (random_fill e ts tcol orig rows (sh, k)) (tcol, r) \<in> set ts"
proof (induction rows arbitrary: sh k)
  case Nil
  then show ?case by simp
next
  case (Cons a rows)
  have "nat \<lfloor>random e j * of_nat (length ts)\<rfloor> < length ts" for j
    using random_index_in_range [of "random e j" ts] assms(1,2) by blast
  then have idx: "ts ! nat \<lfloor>random e j * of_nat (length ts)\<rfloor> \<in> set ts" for j
    by (rule nth_mem)
  let ?t = "ts ! nat \<lfloor>random e k * of_nat (length ts)\<rfloor>"
  show ?case
  proof (cases "has_value (orig (''B'', a)) \<and> \<not> has_value (orig (tcol, a))")
    case True
    have "r \<in> set rows \<or> (sh((tcol, a) := ?t)) (tcol, r) \<in> set ts"
      using Cons.prems idx [of k] by auto
    then have ih: "fst (random_fill e ts tcol orig rows (sh((tcol, a) := ?t), Suc k)) (tcol, r) \<in> set ts"
      by (rule Cons.IH)
    have "random_fill e ts tcol orig (a # rows) (sh, k) =
          random_fill e ts tcol orig rows (sh((tcol, a) := ?t), Suc k)"
      using True by (simp add: Let_def)
    with ih show ?thesis by simp
  next
    case False
    with assms(3,4) have "r \<noteq> a" by auto
    with Cons.prems have "r \<in> set rows \<or> sh (tcol, r) \<in> set ts" by auto
    then have ih: "fst (random_fill e ts tcol orig rows (sh, k)) (tcol, r) \<in> set ts"
      by (rule Cons.IH)
    have "random_fill e ts tcol orig (a # rows) (sh, k) = random_fill e ts tcol orig rows (sh, k)"
      using False by (auto simp: Let_def)
    with ih show ?thesis by simp
  qed
qed

lemma weekly_randomPick:
  "weekly (randomPick e s) =
     (case tasks s of
        None \<Rightarrow> weekly s
      | Some tsh \<Rightarrow>
          (let ts = filter (\<lambda>t. truthy t \<and> t \<noteq> Txt []) (column_values tsh ''A'' 4 (taskl s))
           in if ts = [] then weekly s
              else fst (random_fill e ts (indexToColumnLetter (int (dIndex s) * 2 + 3 - 1)) (weekly s)
                          [DATA_START_ROW ..< Suc lastTimeLine] (weekly s, 0))))"
  by (simp add: randomPick_def Let_def showStatus_def split: option.splits prod.splits del: upt_Suc)

text \<open>
  C7. \<open>randomPick\<close> changes a cell of the Weekly sheet only in the task column of the
  active weekday, in a data row whose time cell has a value and whose task cell has none; a
  cell that holds a value keeps it. When the results of \<^verbatim>\<open>Math.random()\<close> lie in
  \<open>[0, 1)\<close>, what is written is a non-empty name of the Tasks ledger.
\<close>

theorem randomPick_fills_only_empty_slots:
  "(weekly (randomPick e s) (c, r) \<noteq> weekly s (c, r) \<longrightarrow>
      c = indexToColumnLetter (int (dIndex s) * 2 + 3 - 1)
      \<and> DATA_START_ROW \<le> r \<and> r \<le> lastTimeLine
      \<and> has_value (weekly s (''B'', r)) \<and> \<not> has_value (weekly s (c, r)))
   \<and> (has_value (weekly s (c, r)) \<longrightarrow> weekly (randomPick e s) (c, r) = weekly s (c, r))
   \<and> ((\<forall>k. 0 \<le> random e k \<and> random e k < 1) \<and> weekly (randomPick e s) (c, r) \<noteq> weekly s (c, r) \<longrightarrow>
        (\<exists>tsh. tasks s = Some tsh
           \<and> weekly (randomPick e s) (c, r) \<in> set (column_values tsh ''A'' 4 (taskl s))
           \<and> truthy (weekly (randomPick e s) (c, r))))"
proof -
  let ?tcol = "indexToColumnLetter (int (dIndex s) * 2 + 3 - 1)"
  let ?rows = "[DATA_START_ROW ..< Suc lastTimeLine]"
  let ?cond = "c = ?tcol \<and> r \<in> set ?rows \<and> has_value (weekly s (''B'', r)) \<and> \<not> has_value (weekly s (?tcol, r))"
  have frame: "weekly (randomPick e s) (c, r) = weekly s (c, r)" if "\<not> ?cond"
    using random_fill_other [OF that, of e _ "weekly s" 0]
    by (simp add: weekly_randomPick Let_def split: option.splits del: upt_Suc)
  have a: "weekly (randomPick e s) (c, r) \<noteq> weekly s (c, r) \<longrightarrow>
      c = ?tcol \<and> DATA_START_ROW \<le> r \<and> r \<le> lastTimeLine
      \<and> has_value (weekly s (''B'', r)) \<and> \<not> has_value (weekly s (c, r))"
  proof
    assume "weekly (randomPick e s) (c, r) \<noteq> weekly s (c, r)"
    with frame have cond: ?cond by blast
    then have "DATA_START_ROW \<le> r \<and> r \<le> lastTimeLine"
      by (simp del: upt_Suc add: less_Suc_eq_le)
    with cond show "c = ?tcol \<and> DATA_START_ROW \<le> r \<and> r \<le> lastTimeLine
      \<and> has_value (weekly s (''B'', r)) \<and> \<not> has_value (weekly s (c, r))"
      by blast
  qed
  have b: "has_value (weekly s (c, r)) \<longrightarrow> weekly (randomPick e s) (c, r) = weekly s (c, r)"
    using frame by auto
  have m: "(\<forall>k. 0 \<le> random e k \<and> random e k < 1) \<and> weekly (randomPick e s) (c, r) \<noteq> weekly s (c, r) \<longrightarrow>
        (\<exists>tsh. tasks s = Some tsh
           \<and> weekly (randomPick e s) (c, r) \<in> set (column_values tsh ''A'' 4 (taskl s))
           \<and> truthy (weekly (randomPick e s) (c, r)))"
  proof
    assume h: "(\<forall>k. 0 \<le> random e k \<and> random e k < 1) \<and> weekly (randomPick e s) (c, r) \<noteq> weekly s (c, r)"
    then have cond: ?cond using frame by blast
    from h obtain tsh where tsh: "tasks s = Some tsh"
      by (cases "tasks s") (auto simp: weekly_randomPick)
    let ?ts = "filter (\<lambda>t. truthy t \<and> t \<noteq> Txt []) (column_values tsh ''A'' 4 (taskl s))"
    from h tsh have ne: "?ts \<noteq> []"
      by (auto simp: weekly_randomPick Let_def split: if_splits)
    have eq: "weekly (randomPick e s) (c, r) =
        fst (random_fill e ?ts ?tcol (weekly s) ?rows (weekly s, 0)) (?tcol, r)"
      using tsh ne cond by (simp add: weekly_randomPick Let_def del: upt_Suc)
    have "fst (random_fill e ?ts ?tcol (weekly s) ?rows (weekly s, 0)) (?tcol, r) \<in> set ?ts"
      using random_fill_member [OF ne, of e "weekly s" r ?tcol ?rows "weekly s" 0] h cond by blast
    with eq have "weekly (randomPick e s) (c, r) \<in> set ?ts" by simp
    with tsh show "\<exists>tsh. tasks s = Some tsh
           \<and> weekly (randomPick e s) (c, r) \<in> set (column_values tsh ''A'' 4 (taskl s))
           \<and> truthy (weekly (randomPick e s) (c, r))"
      by auto
  qed
  from a b m show ?thesis by blast
qed

theorem randomPick_fills_only_empty_slots_witness:
  "(weekly (randomPick tuesday_afternoon pick_workbook) (''E'', 5) \<noteq> weekly pick_workbook (''E'', 5)
    \<and> ''E'' = indexToColumnLetter (int (dIndex pick_workbook) * 2 + 3 - 1)
    \<and> has_value (weekly pick_workbook (''B'', 5)) \<and> \<not> has_value (weekly pick_workbook (''E'', 5)))
   \<and> (has_value (weekly pick_workbook (''E'', 6))
      \<and> weekly (randomPick tuesday_afternoon pick_workbook) (''E'', 6) = weekly pick_workbook (''E'', 6))
   \<and> truthy (weekly (randomPick tuesday_afternoon pick_workbook) (''E'', 5))"
proof -
  have ch: "weekly (randomPick tuesday_afternoon pick_workbook) (''E'', 5) \<noteq> weekly pick_workbook (''E'', 5)"
    by code_simp
  have hv: "has_value (weekly pick_workbook (''E'', 6))"
    by code_simp
  have rnd: "\<forall>k. 0 \<le> random tuesday_afternoon k \<and> random tuesday_afternoon k < 1"
    by (simp add: tuesday_afternoon_def)
  from randomPick_fills_only_empty_slots [of tuesday_afternoon pick_workbook "''E''" 5] ch rnd
  have 1: "''E'' = indexToColumnLetter (int (dIndex pick_workbook) * 2 + 3 - 1)
      \<and> has_value (weekly pick_workbook (''B'', 5)) \<and> \<not> has_value (weekly pick_workbook (''E'', 5))
      \<and> truthy (weekly (randomPick tuesday_afternoon pick_workbook) (''E'', 5))"
    by blast
  from randomPick_fills_only_empty_slots [of tuesday_afternoon pick_workbook "''E''" 6] hv
  have 2: "weekly (randomPick tuesday_afternoon pick_workbook) (''E'', 6) = weekly pick_workbook (''E'', 6)"
    by blast
  from ch hv 1 2 show ?thesis by blast
qed

section \<open>Score entry\<close>
















text \<open>While \<^verbatim>\<open>lastMonday\<close> is \<^verbatim>\<open>null\<close> a score with a task next to it changes nothing.\<close>

lemma score_before_opening:
  assumes "tasks s = Some tsh" "lastMonday s = None"
    and "truthy (weekly s (indexToColumnLetter (col - 2), r))"
  shows "processWeeklyScoreChange e r col newScore s = Inl TypeError"
  using assms by (simp add: processWeeklyScoreChange_def Let_def)



text \<open>
  Before the Weekly sheet has been opened \<^verbatim>\<open>lastMonday\<close> is \<^verbatim>\<open>null\<close>, and the change
  handler changes nothing: the pipeline returns early or throws before its first write.
\<close>

lemma cell_change_before_opening:
  assumes "lastMonday s = None"
  shows "handleCellChanged e addr s = s"
proof -
  have "processWeeklyScoreChange e r col x s = Inl ItemNotFound
        \<or> processWeeklyScoreChange e r col x s = Inl TypeError
        \<or> processWeeklyScoreChange e r col x s = Inr s" for r col x
    using assms by (auto simp: processWeeklyScoreChange_def Let_def split: option.splits)
  then have "(case processWeeklyScoreChange e r col x s of Inl err \<Rightarrow> s | Inr s' \<Rightarrow> s') = s" for r col x
    by (metis sum.simps(5,6))
  then show ?thesis
    by (simp add: handleCellChanged_def Let_def split: option.splits)
qed

lemma cell_change_unopened:
  "handleCellChanged tuesday_afternoon ''D5'' unopened_workbook = unopened_workbook"
  by (rule cell_change_before_opening) (simp add: unopened_workbook_def)

section \<open>Habit completion\<close>






















section \<open>Selecting and changing a score cell\<close>

lemma score_not_task_column: "c \<in> set SCORE_COLUMNS \<Longrightarrow> c \<notin> set TASK_COLUMNS"
  by (auto simp: SCORE_COLUMNS_def TASK_COLUMNS_def)

text \<open>
  C3, amended: selecting a score cell (a score column, rows 5 to 37) writes to no sheet and
  offers no download. When the cell holds a value and the task cell to its left is truthy,
  the status shown is "Score can't be modified once set."; when the task cell is not truthy,
  the warning "Please select a task first!" is shown instead, whatever the score cell holds.
\<close>

theorem score_selection_writes_nothing:
  assumes "colIdx \<in> set SCORE_COLUMNS" "DATA_START_ROW \<le> r" "r < scoreLine"
  shows "weekly (handleWeeklySelection e col colIdx r s) = weekly s
     \<and> weekly_fill (handleWeeklySelection e col colIdx r s) = weekly_fill s
     \<and> habits (handleWeeklySelection e col colIdx r s) = habits s
     \<and> tasks (handleWeeklySelection e col colIdx r s) = tasks s
     \<and> summary (handleWeeklySelection e col colIdx r s) = summary s
     \<and> downloads (handleWeeklySelection e col colIdx r s) = downloads s
     \<and> (truthy (weekly s (left_of col, r)) \<and> has_value (weekly s (col, r)) \<longrightarrow>
          status (handleWeeklySelection e col colIdx r s)
            = Some (''Score can'' @ [CHR 0x27] @ ''t be modified once set.'', ''warning''))
     \<and> (\<not> truthy (weekly s (left_of col, r)) \<longrightarrow>
          status (handleWeeklySelection e col colIdx r s)
            = Some (emoji_warning @ '' Please select a task first!'', ''warning''))"
  using assms score_not_task_column [OF assms(1)]
  by (simp add: handleWeeklySelection_def showStatus_def showWarningPopup_def has_value_def
      DATA_START_ROW_def CONTROL_ROW_def scoreLine_def)

theorem score_selection_writes_nothing_witness:
  "weekly (handleWeeklySelection tuesday_afternoon ''D'' 4 5 rescored_workbook) = weekly rescored_workbook
   \<and> tasks (handleWeeklySelection tuesday_afternoon ''D'' 4 5 rescored_workbook) = tasks rescored_workbook
   \<and> summary (handleWeeklySelection tuesday_afternoon ''D'' 4 5 rescored_workbook) = summary rescored_workbook
   \<and> status (handleWeeklySelection tuesday_afternoon ''D'' 4 5 rescored_workbook)
       = Some (''Score can'' @ [CHR 0x27] @ ''t be modified once set.'', ''warning'')
   \<and> status (handleWeeklySelection tuesday_afternoon ''D'' 4 5 untasked_score_workbook)
       = Some (emoji_warning @ '' Please select a task first!'', ''warning'')"
proof -
  have h: "(4::int) \<in> set SCORE_COLUMNS" "DATA_START_ROW \<le> 5" "5 < scoreLine" by code_simp+
  have a: "truthy (weekly rescored_workbook (left_of ''D'', 5))" "has_value (weekly rescored_workbook (''D'', 5))"
    by code_simp+
  have b: "\<not> truthy (weekly untasked_score_workbook (left_of ''D'', 5))" by code_simp
  from score_selection_writes_nothing [OF h, of tuesday_afternoon "''D''" rescored_workbook]
    score_selection_writes_nothing [OF h, of tuesday_afternoon "''D''" untasked_score_workbook] a b
  show ?thesis by blast
qed

text \<open>
  C3 as stated fails on the selection: a score cell that holds a value, next to an empty task
  cell, gets the task warning when it is selected, not the "cannot be modified" status.
\<close>

theorem set_score_selection_task_warning:
  "has_value (weekly untasked_score_workbook (''D'', 5))
   \<and> \<not> truthy (weekly untasked_score_workbook (''C'', 5))
   \<and> status (handleSelectionChanged tuesday_afternoon ''D5'' untasked_score_workbook)
       = Some (emoji_warning @ '' Please select a task first!'', ''warning'')
   \<and> status (handleSelectionChanged tuesday_afternoon ''D5'' untasked_score_workbook)
       \<noteq> Some (''Score can'' @ [CHR 0x27] @ ''t be modified once set.'', ''warning'')"
  by code_simp

section \<open>Week rollover\<close>


































end
